theory Spec2Isabelle
  imports Complex_Main "HOL-Library.AList"
begin

section \<open>Settings store: the JSON configuration file\<close>

text \<open>
  Values that \<^verbatim>\<open>json.load\<close> can return. A JSON object is kept as the list of its
  members in document order; numbers are reals (the program only stores and compares the
  four rates 0.5, 1.0, 1.5 and 2.0 and whatever number the file holds).
\<close>

datatype json =
    JNull
  | JBool bool
  | JNum real
  | JStr string
  | JArray "json list"
  | JObject "(string \<times> json) list"

text \<open>
  A Python \<^verbatim>\<open>dict\<close> with string keys: an association list with distinct keys in
  insertion order. \<^verbatim>\<open>d[k] = v\<close> is \<^const>\<open>AList.update\<close> (replace in place, or append),
  \<^verbatim>\<open>d.get(k, dflt)\<close> is \<open>dict_get\<close>, \<^verbatim>\<open>{**a, **b}\<close> is \<open>dict_merge\<close>.
\<close>

type_synonym pydict = "(string \<times> json) list"

definition dict_get :: "pydict \<Rightarrow> string \<Rightarrow> json \<Rightarrow> json" where
  "dict_get d k dflt = (case map_of d k of None \<Rightarrow> dflt | Some v \<Rightarrow> v)"

definition dict_set :: "string \<Rightarrow> json \<Rightarrow> pydict \<Rightarrow> pydict" where
  "dict_set k v d = AList.update k v d"

definition dict_merge :: "pydict \<Rightarrow> pydict \<Rightarrow> pydict" where
  "dict_merge a b = fold (\<lambda>(k, v). AList.update k v) b a"

text \<open>The dict that \<^verbatim>\<open>json.load\<close> builds from an object: a repeated key keeps its last value.\<close>

definition dict_of_object :: "(string \<times> json) list \<Rightarrow> pydict" where
  "dict_of_object kvs = dict_merge [] kvs"

definition DEFAULT_CONFIG :: pydict where
  "DEFAULT_CONFIG =
     [(''last_video'', JStr ''''),
      (''default_video'', JStr ''''),
      (''speed'', JNum 1),
      (''aspect_mode'', JStr ''fit'')]"

text \<open>
  What the program finds at \<^verbatim>\<open>CONFIG_PATH\<close>: no file, a file on which \<^verbatim>\<open>open\<close> or
  \<^verbatim>\<open>json.load\<close> raises, or a file that parses to a JSON value.
\<close>

datatype config_file = Missing | Unreadable | Parsed json

text \<open>
  \<^verbatim>\<open>load_config\<close>: \<^verbatim>\<open>{**DEFAULT_CONFIG, **cfg}\<close> raises \<^verbatim>\<open>TypeError\<close> when the parsed
  value is not a mapping, and the \<^verbatim>\<open>except Exception\<close> returns the defaults.
\<close>

fun load_config :: "config_file \<Rightarrow> pydict" where
  "load_config Missing = DEFAULT_CONFIG"
| "load_config Unreadable = DEFAULT_CONFIG"
| "load_config (Parsed (JObject kvs)) = dict_merge DEFAULT_CONFIG (dict_of_object kvs)"
| "load_config (Parsed _) = DEFAULT_CONFIG"

text \<open>
  \<^verbatim>\<open>save_config\<close> swallows every exception. The write either succeeds, or \<^verbatim>\<open>open\<close>
  raises (the file stays as it was), or \<^verbatim>\<open>json.dump\<close> raises after \<^verbatim>\<open>open(..., "w")\<close>
  has truncated the file (what is left does not parse).
\<close>

datatype write_outcome = WriteOk | OpenFails | DumpFails

definition save_config :: "write_outcome \<Rightarrow> pydict \<Rightarrow> config_file \<Rightarrow> config_file" where
  "save_config wo cfg f =
     (case wo of
        WriteOk \<Rightarrow> Parsed (JObject cfg)
      | OpenFails \<Rightarrow> f
      | DumpFails \<Rightarrow> Unreadable)"

section \<open>Exceptions and state\<close>

text \<open>
  The exceptions that occur: \<^verbatim>\<open>FileNotFoundError(path)\<close> raised by \<^verbatim>\<open>load\<close>, any
  exception raised by a call into the media engine (with its message), and the
  \<^verbatim>\<open>TypeError\<close> that \<^verbatim>\<open>Path(v)\<close> raises when \<^verbatim>\<open>v\<close> is not a string.
\<close>

datatype error =
    FileNotFoundError string
  | EngineError string
  | TypeError string

text \<open>\<^verbatim>\<open>str(e)\<close>, as the f-strings of the program format it.\<close>

fun str_error :: "error \<Rightarrow> string" where
  "str_error (FileNotFoundError p) = p"
| "str_error (EngineError m) = m"
| "str_error (TypeError m) = m"

text \<open>
  A method is a function from the state before the call to its outcome (\<open>Inl\<close>: the
  exception that propagates, \<open>Inr\<close>: the value returned) and the state after it. An
  exception keeps every assignment made before it was raised.
\<close>

type_synonym ('a, 's) act = "'s \<Rightarrow> (error + 'a) \<times> 's"

definition ret :: "'a \<Rightarrow> ('a, 's) act" where
  "ret x = (\<lambda>s. (Inr x, s))"

definition raise :: "error \<Rightarrow> ('a, 's) act" where
  "raise e = (\<lambda>s. (Inl e, s))"

definition modify :: "('s \<Rightarrow> 's) \<Rightarrow> (unit, 's) act" where
  "modify f = (\<lambda>s. (Inr (), f s))"

definition bind_act :: "('a, 's) act \<Rightarrow> ('a \<Rightarrow> ('b, 's) act) \<Rightarrow> ('b, 's) act" where
  "bind_act m f = (\<lambda>s. case m s of (Inl e, s') \<Rightarrow> (Inl e, s') | (Inr x, s') \<Rightarrow> f x s')"

definition then_act :: "(unit, 's) act \<Rightarrow> ('b, 's) act \<Rightarrow> ('b, 's) act" where
  "then_act m k = bind_act m (\<lambda>_. k)"

text \<open>A block of statements, run in order until one raises.\<close>

definition block :: "(unit, 's) act list \<Rightarrow> (unit, 's) act" where
  "block ms = foldr then_act ms (ret ())"

text \<open>\<^verbatim>\<open>try: m  except Exception as e: h(e)\<close>\<close>

definition try_except :: "('a, 's) act \<Rightarrow> (error \<Rightarrow> ('a, 's) act) \<Rightarrow> ('a, 's) act" where
  "try_except m h = (\<lambda>s. case m s of (Inl e, s') \<Rightarrow> h e s' | (Inr x, s') \<Rightarrow> (Inr x, s'))"

section \<open>The environment: file system, path names, media engine\<close>

text \<open>A \<^verbatim>\<open>vlc.Media\<close> object: the path it was created from and the options added to it.\<close>

record vlc_media =
  mrl :: string
  options :: "string list"

text \<open>The calls the program makes into python-vlc.\<close>

datatype engine_call =
    MediaNew string
  | AddOption string
  | SetMedia vlc_media
  | SetRate real
  | VideoSetScale int
  | VideoSetAspectRatio "string option"
  | Play
  | Pause
  | Stop
  | IsPlaying

text \<open>
  The media engine is an external library. Its player is modelled by the settings the
  program gives it, its playing status, and the \<open>trace\<close> of every call the program has
  issued (in order, failed calls included).
\<close>

record player =
  p_media :: "vlc_media option"
  p_rate :: real
  p_scale :: int
  p_aspect_ratio :: "string option"
  p_playing :: bool
  trace :: "engine_call list"

text \<open>
  What the program cannot decide itself is a parameter:
  \<^item> \<open>path_exists p\<close> is \<^verbatim>\<open>Path(p).exists()\<close>;
  \<^item> \<open>path_name p\<close> is \<^verbatim>\<open>Path(p).name\<close>;
  \<^item> \<open>engine_fault t c\<close> says whether the engine call \<open>c\<close>, issued after the calls \<open>t\<close>,
    raises (\<open>Some msg\<close>, with the exception's message) or returns (\<open>None\<close>);
  \<^item> \<open>write_result\<close> is the outcome of writing the settings file.
\<close>

record env =
  path_exists :: "string \<Rightarrow> bool"
  path_name :: "string \<Rightarrow> string"
  engine_fault :: "engine_call list \<Rightarrow> engine_call \<Rightarrow> string option"
  write_result :: write_outcome

text \<open>The effect of a call that returns: the engine takes the setting it is given.\<close>

fun effect :: "engine_call \<Rightarrow> player \<Rightarrow> player" where
  "effect (SetMedia m) p = p\<lparr>p_media := Some m\<rparr>"
| "effect (SetRate r) p = p\<lparr>p_rate := r\<rparr>"
| "effect (VideoSetScale s) p = p\<lparr>p_scale := s\<rparr>"
| "effect (VideoSetAspectRatio a) p = p\<lparr>p_aspect_ratio := a\<rparr>"
| "effect Play p = p\<lparr>p_playing := True\<rparr>"
| "effect Pause p = p\<lparr>p_playing := False\<rparr>"
| "effect Stop p = p\<lparr>p_playing := False\<rparr>"
| "effect (MediaNew path) p = p"
| "effect (AddOption opt) p = p"
| "effect IsPlaying p = p"

definition invoke :: "env \<Rightarrow> engine_call \<Rightarrow> (unit, player) act" where
  "invoke E c = (\<lambda>p.
     case engine_fault E (trace p) c of
       Some msg \<Rightarrow> (Inl (EngineError msg), p\<lparr>trace := trace p @ [c]\<rparr>)
     | None \<Rightarrow> (Inr (), effect c (p\<lparr>trace := trace p @ [c]\<rparr>)))"

section \<open>WallpaperWindow: the background surface\<close>

text \<open>
  The fields that \<^verbatim>\<open>WallpaperWindow.__init__\<close> creates. \<open>stdout\<close> collects the lines
  the process prints.
\<close>

record wallpaper =
  player :: player
  media :: "vlc_media option"
  aspect_mode :: string
  speed :: real
  current_video_path :: string
  was_playing :: bool
  manually_paused :: bool
  stdout :: "string list"

definition engine :: "env \<Rightarrow> engine_call \<Rightarrow> (unit, wallpaper) act" where
  "engine E c = (\<lambda>w. case invoke E c (player w) of (r, p) \<Rightarrow> (r, w\<lparr>player := p\<rparr>))"

definition print :: "string \<Rightarrow> (unit, wallpaper) act" where
  "print line = modify (\<lambda>w. w\<lparr>stdout := stdout w @ [line]\<rparr>)"

text \<open>The options \<^verbatim>\<open>load\<close> adds to the new media object, in order.\<close>

definition media_options :: "string list" where
  "media_options =
     [''input-repeat=999999'', ''--loop'',
      '':network-caching=300'', '':file-caching=300'', '':live-caching=300'']"

definition apply_aspect_mode :: "env \<Rightarrow> (unit, wallpaper) act" where
  "apply_aspect_mode E = (\<lambda>w.
     if aspect_mode w = ''fit'' then
       try_except
         (block [engine E (VideoSetScale 1), engine E (VideoSetAspectRatio None)])
         (\<lambda>e. ret ()) w
     else
       try_except
         (block [engine E (VideoSetScale 0), engine E (VideoSetAspectRatio (Some ''16:9''))])
         (\<lambda>e. ret ()) w)"

definition load :: "env \<Rightarrow> string \<Rightarrow> (unit, wallpaper) act" where
  "load E path = (\<lambda>w.
     if \<not> path_exists E path then raise (FileNotFoundError path) w
     else
       block
         [modify (\<lambda>w. w\<lparr>current_video_path := path\<rparr>),
          engine E (MediaNew path),
          block (map (\<lambda>opt. engine E (AddOption opt)) media_options),
          modify (\<lambda>w. w\<lparr>media := Some \<lparr>mrl = path, options = media_options\<rparr>\<rparr>),
          engine E (SetMedia \<lparr>mrl = path, options = media_options\<rparr>),
          try_except
            (\<lambda>w. if speed w \<noteq> 1 then engine E (SetRate (speed w)) w else ret () w)
            (\<lambda>e. ret ()),
          apply_aspect_mode E] w)"

definition play :: "env \<Rightarrow> (unit, wallpaper) act" where
  "play E = (\<lambda>w.
     if media w = None then ret () w
     else
       try_except
         (block
            [engine E Play,
             modify (\<lambda>w. w\<lparr>was_playing := True\<rparr>),
             modify (\<lambda>w. w\<lparr>manually_paused := False\<rparr>),
             (\<lambda>w. if speed w \<noteq> 1
                  then try_except (engine E (SetRate (speed w))) (\<lambda>e. ret ()) w
                  else ret () w)])
         (\<lambda>e. print (''Error playing video: '' @ str_error e)) w)"

definition pause :: "env \<Rightarrow> (unit, wallpaper) act" where
  "pause E =
     try_except
       (block
          [engine E Pause,
           modify (\<lambda>w. w\<lparr>was_playing := False\<rparr>),
           modify (\<lambda>w. w\<lparr>manually_paused := True\<rparr>)])
       (\<lambda>e. print (''Error pausing video: '' @ str_error e))"

definition stop :: "env \<Rightarrow> (unit, wallpaper) act" where
  "stop E =
     try_except
       (block
          [engine E Stop,
           modify (\<lambda>w. w\<lparr>current_video_path := ''''\<rparr>),
           modify (\<lambda>w. w\<lparr>was_playing := False\<rparr>),
           modify (\<lambda>w. w\<lparr>manually_paused := False\<rparr>)])
       (\<lambda>e. print (''Error stopping video: '' @ str_error e))"

definition set_speed :: "env \<Rightarrow> real \<Rightarrow> (unit, wallpaper) act" where
  "set_speed E r =
     then_act (modify (\<lambda>w. w\<lparr>speed := r\<rparr>))
       (try_except
          (\<lambda>w. engine E (SetRate (speed w)) w)
          (\<lambda>e. print (''Error setting playback speed: '' @ str_error e)))"

definition toggle_aspect :: "env \<Rightarrow> (string, wallpaper) act" where
  "toggle_aspect E =
     then_act
       (\<lambda>w. if aspect_mode w = ''fit''
            then modify (\<lambda>w. w\<lparr>aspect_mode := ''keep_aspect''\<rparr>) w
            else modify (\<lambda>w. w\<lparr>aspect_mode := ''fit''\<rparr>) w)
       (then_act (apply_aspect_mode E) (\<lambda>w. ret (aspect_mode w) w))"

text \<open>\<^verbatim>\<open>is_playing\<close> asks the engine; an exception reads as "not playing".\<close>

definition is_playing :: "env \<Rightarrow> (bool, wallpaper) act" where
  "is_playing E =
     try_except
       (then_act (engine E IsPlaying) (\<lambda>w. ret (p_playing (player w)) w))
       (\<lambda>e. ret False)"

text \<open>
  The states of the surface: \<^verbatim>\<open>play\<close> tells them apart by \<^verbatim>\<open>self.media is None\<close>.
\<close>

datatype surface_state = Empty | Loaded

definition surface_state :: "wallpaper \<Rightarrow> surface_state" where
  "surface_state w = (if media w = None then Empty else Loaded)"

text \<open>The engine calls issued between two states of the surface.\<close>

definition issued :: "wallpaper \<Rightarrow> wallpaper \<Rightarrow> engine_call list" where
  "issued w w' = drop (length (trace (player w))) (trace (player w'))"

section \<open>Vocabulary for the engine calls a method issues\<close>

text \<open>
  The two branches of \<^verbatim>\<open>_apply_aspect_mode\<close>: the scale and the aspect ratio it hands
  to the engine for a mode.
\<close>

definition aspect_settings :: "string \<Rightarrow> int \<times> string option" where
  "aspect_settings mode = (if mode = ''fit'' then (1, None) else (0, Some ''16:9''))"

text \<open>
  The calls of \<^verbatim>\<open>_apply_aspect_mode\<close> after the calls \<open>t\<close>: the aspect ratio is set
  only when setting the scale did not raise.
\<close>

definition aspect_calls :: "env \<Rightarrow> engine_call list \<Rightarrow> string \<Rightarrow> engine_call list" where
  "aspect_calls E t mode =
     VideoSetScale (fst (aspect_settings mode)) #
     (if engine_fault E t (VideoSetScale (fst (aspect_settings mode))) = None
      then [VideoSetAspectRatio (snd (aspect_settings mode))] else [])"

text \<open>The guard \<^verbatim>\<open>if self.speed != 1.0\<close> around \<^verbatim>\<open>set_rate\<close> in \<^verbatim>\<open>load\<close> and \<^verbatim>\<open>play\<close>.\<close>

definition rate_calls :: "real \<Rightarrow> engine_call list" where
  "rate_calls r = (if r \<noteq> 1 then [SetRate r] else [])"

text \<open>The calls by which \<^verbatim>\<open>load\<close> creates the media object and binds it to the player.\<close>

definition binding_calls :: "string \<Rightarrow> engine_call list" where
  "binding_calls path =
     MediaNew path # map AddOption media_options @
     [SetMedia \<lparr>mrl = path, options = media_options\<rparr>]"

section \<open>ControlPanel: the control surface\<close>

text \<open>
  The parts of the panel that its handlers read or write: the surface it drives, the
  shared \<^verbatim>\<open>config\<close> dict, the settings file \<open>store\<close> that \<^verbatim>\<open>save_config\<close> writes, the
  two buttons, the status label, and the texts of the error boxes shown.
\<close>

record panel =
  wallpaper :: wallpaper
  config :: pydict
  store :: config_file
  btn_playpause_enabled :: bool
  btn_playpause_text :: string
  btn_setdefault_enabled :: bool
  status :: string
  dialogs :: "string list"

text \<open>A call of a method of \<^verbatim>\<open>self.wallpaper\<close>.\<close>

definition on_wallpaper :: "('a, wallpaper) act \<Rightarrow> ('a, panel) act" where
  "on_wallpaper m = (\<lambda>p. case m (wallpaper p) of (r, w) \<Rightarrow> (r, p\<lparr>wallpaper := w\<rparr>))"

text \<open>Python's truth value of a configuration value.\<close>

fun truthy :: "json \<Rightarrow> bool" where
  "truthy JNull = False"
| "truthy (JBool b) = b"
| "truthy (JNum r) = (r \<noteq> 0)"
| "truthy (JStr s) = (s \<noteq> [])"
| "truthy (JArray xs) = (xs \<noteq> [])"
| "truthy (JObject kvs) = (kvs \<noteq> [])"

text \<open>
  \<^verbatim>\<open>v and Path(v).exists()\<close>, read as a condition: \<^verbatim>\<open>Path(v)\<close> raises \<^verbatim>\<open>TypeError\<close>
  for a value that is not a string.
\<close>

fun set_and_exists :: "env \<Rightarrow> json \<Rightarrow> error + bool" where
  "set_and_exists E (JStr s) = Inr (s \<noteq> [] \<and> path_exists E s)"
| "set_and_exists E v =
     (if truthy v then Inl (TypeError ''expected str, bytes or os.PathLike object'')
      else Inr False)"

fun text_of :: "json \<Rightarrow> string" where
  "text_of (JStr s) = s"
| "text_of v = []"

text \<open>
  The two \<^verbatim>\<open>try\<close> blocks at the end of \<^verbatim>\<open>ControlPanel.__init__\<close> differ only in the
  path and in the two message prefixes.
\<close>

definition auto_load :: "env \<Rightarrow> string \<Rightarrow> string \<Rightarrow> string \<Rightarrow> (unit, panel) act" where
  "auto_load E loaded_prefix error_prefix path =
     try_except
       (block
          [on_wallpaper (load E path),
           modify (\<lambda>p. p\<lparr>btn_playpause_enabled := True\<rparr>),
           modify (\<lambda>p. p\<lparr>btn_playpause_text := ''Pause''\<rparr>),
           modify (\<lambda>p. p\<lparr>btn_setdefault_enabled := True\<rparr>),
           modify (\<lambda>p. p\<lparr>status := loaded_prefix @ path_name E path\<rparr>),
           on_wallpaper (play E)])
       (\<lambda>e. on_wallpaper (print (error_prefix @ str_error e)))"

text \<open>The end of \<^verbatim>\<open>ControlPanel.__init__\<close>: which video to load when the program starts.\<close>

definition startup :: "env \<Rightarrow> (unit, panel) act" where
  "startup E = (\<lambda>p.
     let default_video = dict_get (config p) ''default_video'' (JStr []) in
     case set_and_exists E default_video of
       Inl e \<Rightarrow> raise e p
     | Inr True \<Rightarrow>
         auto_load E ''Loaded default: '' ''Error loading default video: ''
           (text_of default_video) p
     | Inr False \<Rightarrow>
         (let last_video = dict_get (config p) ''last_video'' (JStr []) in
          case set_and_exists E last_video of
            Inl e \<Rightarrow> raise e p
          | Inr True \<Rightarrow>
              auto_load E ''Loaded: '' ''Error loading last video: '' (text_of last_video) p
          | Inr False \<Rightarrow> ret () p))"

text \<open>
  \<^verbatim>\<open>on_load\<close>; \<open>path\<close> is what the file dialog returned, the empty string when the user
  cancelled it.
\<close>

definition on_load :: "env \<Rightarrow> string \<Rightarrow> (unit, panel) act" where
  "on_load E path = (\<lambda>p.
     if path = [] then ret () p
     else
       block
         [modify (\<lambda>p. p\<lparr>config := dict_set ''last_video'' (JStr path) (config p)\<rparr>),
          modify (\<lambda>p. p\<lparr>store := save_config (write_result E) (config p) (store p)\<rparr>),
          try_except
            (block
               [on_wallpaper (load E path),
                modify (\<lambda>p. p\<lparr>btn_playpause_enabled := True\<rparr>),
                modify (\<lambda>p. p\<lparr>btn_setdefault_enabled := True\<rparr>),
                on_wallpaper (play E),
                modify (\<lambda>p. p\<lparr>btn_playpause_text := ''Pause''\<rparr>),
                modify (\<lambda>p. p\<lparr>status := ''Playing: '' @ path_name E path\<rparr>)])
            (\<lambda>e. modify (\<lambda>p. p\<lparr>dialogs :=
                     dialogs p @ [''Failed to load video:'' @ [CHR 0x0A] @ str_error e]\<rparr>))] p)"

text \<open>\<^verbatim>\<open>mapping.get(index, 1.0)\<close> in \<^verbatim>\<open>on_speed_change\<close>.\<close>

definition speed_of_index :: "int \<Rightarrow> real" where
  "speed_of_index i =
     (if i = 0 then 1 / 2 else if i = 1 then 1 else if i = 2 then 3 / 2
      else if i = 3 then 2 else 1)"

text \<open>\<^verbatim>\<open>str\<close> of the four rates that \<^verbatim>\<open>on_speed_change\<close> formats.\<close>

definition str_rate :: "real \<Rightarrow> string" where
  "str_rate r =
     (if r = 1 / 2 then ''0.5'' else if r = 1 then ''1.0'' else if r = 3 / 2 then ''1.5''
      else ''2.0'')"

definition on_speed_change :: "env \<Rightarrow> int \<Rightarrow> (unit, panel) act" where
  "on_speed_change E index = (\<lambda>p.
     let speed = speed_of_index index in
     block
       [on_wallpaper (set_speed E speed),
        modify (\<lambda>p. p\<lparr>config := dict_set ''speed'' (JNum speed) (config p)\<rparr>),
        modify (\<lambda>p. p\<lparr>store := save_config (write_result E) (config p) (store p)\<rparr>),
        modify (\<lambda>p. p\<lparr>status := ''Speed: '' @ str_rate speed @ ''x''\<rparr>)] p)"

text \<open>The rates the speed selector offers.\<close>

definition known_rates :: "real set" where
  "known_rates = {1 / 2, 1, 3 / 2, 2}"

section \<open>Sample states and environments\<close>

text \<open>
  The player and the surface as \<^verbatim>\<open>WallpaperWindow.__init__\<close> leaves them, for an aspect
  mode and a rate read from the configuration; the panel before its start-up load.
\<close>

definition new_player :: player where
  "new_player =
     \<lparr>p_media = None, p_rate = 1, p_scale = 0, p_aspect_ratio = None,
      p_playing = False, trace = []\<rparr>"

definition new_wallpaper :: "string \<Rightarrow> real \<Rightarrow> wallpaper" where
  "new_wallpaper mode rate =
     \<lparr>player = new_player, media = None, aspect_mode = mode, speed = rate,
      current_video_path = [], was_playing = False, manually_paused = False,
      stdout = []\<rparr>"

definition new_panel :: "pydict \<Rightarrow> config_file \<Rightarrow> wallpaper \<Rightarrow> panel" where
  "new_panel cfg file w =
     \<lparr>wallpaper = w, config = cfg, store = file,
      btn_playpause_enabled = False, btn_playpause_text = ''Play'',
      btn_setdefault_enabled = False, status = ''Idle'', dialogs = []\<rparr>"

text \<open>
  One video exists. In \<open>calm_env\<close> no engine call raises; in \<open>broken_env\<close> every
  engine call raises.
\<close>

definition calm_env :: env where
  "calm_env =
     \<lparr>path_exists = (\<lambda>p. p = ''C:/v/sea.mp4''), path_name = (\<lambda>p. drop 5 p),
      engine_fault = (\<lambda>t c. None), write_result = WriteOk\<rparr>"

definition broken_env :: env where
  "broken_env =
     \<lparr>path_exists = (\<lambda>p. p = ''C:/v/sea.mp4''), path_name = (\<lambda>p. drop 5 p),
      engine_fault = (\<lambda>t c. Some ''vlc''), write_result = WriteOk\<rparr>"

text \<open>In \<open>picky_env\<close> the engine accepts a media object but refuses every rate and scale.\<close>

definition picky_env :: env where
  "picky_env =
     \<lparr>path_exists = (\<lambda>p. p = ''C:/v/sea.mp4''), path_name = (\<lambda>p. drop 5 p),
      engine_fault =
        (\<lambda>t c. case c of SetRate r \<Rightarrow> Some ''vlc'' | VideoSetScale s \<Rightarrow> Some ''vlc''
                | _ \<Rightarrow> None),
      write_result = WriteOk\<rparr>"

definition sea_video :: string where
  "sea_video = ''C:/v/sea.mp4''"

text \<open>The surface after loading the video at rate 1.0, and after stopping it again.\<close>

definition loaded_surface :: wallpaper where
  "loaded_surface = snd (load calm_env sea_video (new_wallpaper ''fit'' 1))"

definition stopped_surface :: wallpaper where
  "stopped_surface = snd (stop calm_env loaded_surface)"

text \<open>
  The panel of a fresh installation (no settings file), and a panel whose configuration
  names the video as the default one.
\<close>

definition fresh_panel :: panel where
  "fresh_panel = new_panel (load_config Missing) Missing (new_wallpaper ''fit'' 1)"

definition default_panel :: panel where
  "default_panel =
     new_panel (dict_set ''default_video'' (JStr sea_video) DEFAULT_CONFIG) Missing
       (new_wallpaper ''fit'' 1)"

section \<open>Executing the methods step by step\<close>

lemma block_Nil: "block [] = ret ()"
  by (simp add: block_def)

lemma block_Cons: "block (m # ms) = then_act m (block ms)"
  by (simp add: block_def)

lemma then_act_eq:
  "then_act m k w = (case m w of (Inl e, w1) \<Rightarrow> (Inl e, w1) | (Inr u, w1) \<Rightarrow> k w1)"
  by (simp add: then_act_def bind_act_def)

lemma then_act_Inr:
  "then_act m k w = (Inr x, w') \<longleftrightarrow> (\<exists>w1. m w = (Inr (), w1) \<and> k w1 = (Inr x, w'))"
  by (auto simp: then_act_def bind_act_def split: prod.splits sum.splits)

lemma modify_Inr: "modify f w = (Inr x, w') \<longleftrightarrow> w' = f w"
  by (auto simp: modify_def)

lemma ret_Inr: "ret x w = (Inr y, w') \<longleftrightarrow> y = x \<and> w' = w"
  by (auto simp: ret_def)

lemma engine_eq:
  "engine E c w =
     (case engine_fault E (trace (player w)) c of
        None \<Rightarrow> (Inr (), w\<lparr>player := effect c ((player w)\<lparr>trace := trace (player w) @ [c]\<rparr>)\<rparr>)
      | Some msg \<Rightarrow>
          (Inl (EngineError msg), w\<lparr>player := (player w)\<lparr>trace := trace (player w) @ [c]\<rparr>\<rparr>))"
  by (simp add: engine_def invoke_def split: option.splits)

lemma engine_Inr:
  "engine E c w = (Inr x, w') \<longleftrightarrow>
     engine_fault E (trace (player w)) c = None \<and>
     w' = w\<lparr>player := effect c ((player w)\<lparr>trace := trace (player w) @ [c]\<rparr>)\<rparr>"
  by (auto simp: engine_eq split: option.splits)

lemma load_binding:
  assumes "block
         [modify (\<lambda>w. w\<lparr>current_video_path := path\<rparr>),
          engine E (MediaNew path),
          block (map (\<lambda>opt. engine E (AddOption opt)) media_options),
          modify (\<lambda>w. w\<lparr>media := Some \<lparr>mrl = path, options = media_options\<rparr>\<rparr>),
          engine E (SetMedia \<lparr>mrl = path, options = media_options\<rparr>)] w = (Inr (), w')"
  shows "w' = w\<lparr>current_video_path := path,
     media := Some \<lparr>mrl = path, options = media_options\<rparr>,
     player := (player w)\<lparr>p_media := Some \<lparr>mrl = path, options = media_options\<rparr>,
        trace := trace (player w) @ binding_calls path\<rparr>\<rparr>"
  using assms
  by (simp add: block_Cons block_Nil then_act_Inr modify_Inr ret_Inr engine_Inr
      media_options_def binding_calls_def)

lemma rate_step:
  "try_except (\<lambda>w. if speed w \<noteq> 1 then engine E (SetRate (speed w)) w else ret () w)
     (\<lambda>e. ret ()) w =
   (Inr (), w\<lparr>player := (player w)\<lparr>
      p_rate := (if speed w \<noteq> 1 \<and> engine_fault E (trace (player w)) (SetRate (speed w)) = None
                 then speed w else p_rate (player w)),
      trace := trace (player w) @ rate_calls (speed w)\<rparr>\<rparr>)"
  by (simp add: try_except_def ret_def engine_eq rate_calls_def split: option.splits)

lemma apply_aspect_mode_eq:
  "apply_aspect_mode E w =
   (Inr (), w\<lparr>player := (player w)\<lparr>
      p_scale :=
        (if engine_fault E (trace (player w)) (VideoSetScale (fst (aspect_settings (aspect_mode w)))) = None
         then fst (aspect_settings (aspect_mode w)) else p_scale (player w)),
      p_aspect_ratio :=
        (if engine_fault E (trace (player w)) (VideoSetScale (fst (aspect_settings (aspect_mode w)))) = None \<and>
            engine_fault E (trace (player w) @ [VideoSetScale (fst (aspect_settings (aspect_mode w)))])
              (VideoSetAspectRatio (snd (aspect_settings (aspect_mode w)))) = None
         then snd (aspect_settings (aspect_mode w)) else p_aspect_ratio (player w)),
      trace := trace (player w) @ aspect_calls E (trace (player w)) (aspect_mode w)\<rparr>\<rparr>)"
  by (simp add: apply_aspect_mode_def try_except_def ret_def engine_eq block_Cons block_Nil
      then_act_eq aspect_settings_def aspect_calls_def split: option.splits)

lemma block_split5:
  "block [a, b, c, d, e, f, g] = then_act (block [a, b, c, d, e]) (block [f, g])"
  by (simp add: block_def then_act_def bind_act_def fun_eq_iff ret_def split: prod.splits sum.splits)

lemma load_Inr:
  assumes "load E path w = (Inr (), w')"
  shows "current_video_path w' = path"
    and "media w' = Some \<lparr>mrl = path, options = media_options\<rparr>"
    and "p_media (player w') = Some \<lparr>mrl = path, options = media_options\<rparr>"
    and "p_playing (player w') = p_playing (player w)"
    and "aspect_mode w' = aspect_mode w"
    and "speed w' = speed w"
    and "trace (player w') = trace (player w) @ binding_calls path @ rate_calls (speed w) @
          aspect_calls E (trace (player w) @ binding_calls path @ rate_calls (speed w))
            (aspect_mode w)"
proof -
  from assms have ex: "path_exists E path"
    by (auto simp: load_def raise_def split: if_splits)
  with assms obtain w1 where
    w1: "block
         [modify (\<lambda>w. w\<lparr>current_video_path := path\<rparr>),
          engine E (MediaNew path),
          block (map (\<lambda>opt. engine E (AddOption opt)) media_options),
          modify (\<lambda>w. w\<lparr>media := Some \<lparr>mrl = path, options = media_options\<rparr>\<rparr>),
          engine E (SetMedia \<lparr>mrl = path, options = media_options\<rparr>)] w = (Inr (), w1)"
    and rest: "block [try_except
            (\<lambda>w. if speed w \<noteq> 1 then engine E (SetRate (speed w)) w else ret () w)
            (\<lambda>e. ret ()), apply_aspect_mode E] w1 = (Inr (), w')"
    unfolding load_def by (simp add: block_split5 then_act_Inr) blast
  note w1' = load_binding [OF w1]
  from rest have w': "w' = snd (apply_aspect_mode E (snd (try_except
            (\<lambda>w. if speed w \<noteq> 1 then engine E (SetRate (speed w)) w else ret () w)
            (\<lambda>e. ret ()) w1)))"
    by (simp add: block_Cons block_Nil then_act_Inr ret_Inr rate_step apply_aspect_mode_eq)
  show "current_video_path w' = path"
    and "media w' = Some \<lparr>mrl = path, options = media_options\<rparr>"
    and "p_media (player w') = Some \<lparr>mrl = path, options = media_options\<rparr>"
    and "p_playing (player w') = p_playing (player w)"
    and "aspect_mode w' = aspect_mode w"
    and "speed w' = speed w"
    and "trace (player w') = trace (player w) @ binding_calls path @ rate_calls (speed w) @
          aspect_calls E (trace (player w) @ binding_calls path @ rate_calls (speed w))
            (aspect_mode w)"
    unfolding w' rate_step apply_aspect_mode_eq w1' by simp_all
qed

lemma ret_apply: "ret x w = (Inr x, w)"
  by (simp add: ret_def)

lemma load_returns:
  assumes "path_exists E path"
    and "\<forall>c\<in>set (binding_calls path). \<forall>t. engine_fault E t c = None"
  shows "fst (load E path w) = Inr ()"
proof -
  obtain w1 where first: "block
         [modify (\<lambda>w. w\<lparr>current_video_path := path\<rparr>),
          engine E (MediaNew path),
          block (map (\<lambda>opt. engine E (AddOption opt)) media_options),
          modify (\<lambda>w. w\<lparr>media := Some \<lparr>mrl = path, options = media_options\<rparr>\<rparr>),
          engine E (SetMedia \<lparr>mrl = path, options = media_options\<rparr>)] w = (Inr (), w1)"
    using assms(2)
    by (simp add: block_Cons block_Nil then_act_eq modify_def ret_def engine_eq
        media_options_def binding_calls_def)
  have rest: "fst (block [try_except
            (\<lambda>w. if speed w \<noteq> 1 then engine E (SetRate (speed w)) w else ret () w)
            (\<lambda>e. ret ()), apply_aspect_mode E] w1) = Inr ()"
    by (simp add: block_Cons block_Nil then_act_eq rate_step apply_aspect_mode_eq ret_apply)
  from assms(1) have "load E path w = block [try_except
            (\<lambda>w. if speed w \<noteq> 1 then engine E (SetRate (speed w)) w else ret () w)
            (\<lambda>e. ret ()), apply_aspect_mode E] w1"
    unfolding load_def block_split5 by (simp add: then_act_eq first)
  with rest show ?thesis
    by simp
qed

lemma play_fst: "fst (play E w) = Inr ()"
  by (simp add: play_def try_except_def block_Cons block_Nil then_act_eq engine_eq modify_def
      ret_def print_def split: option.splits)

lemma play_empty: "media w = None \<Longrightarrow> play E w = (Inr (), w)"
  by (simp add: play_def ret_def)

lemma play_failed:
  "media w \<noteq> None \<Longrightarrow> engine_fault E (trace (player w)) Play = Some msg \<Longrightarrow>
   play E w = (Inr (), w\<lparr>player := (player w)\<lparr>trace := trace (player w) @ [Play]\<rparr>,
                        stdout := stdout w @ [''Error playing video: '' @ msg]\<rparr>)"
  by (auto simp: play_def try_except_def block_Cons block_Nil then_act_eq engine_eq modify_def
      ret_def print_def)

lemma play_started:
  "media w \<noteq> None \<Longrightarrow> engine_fault E (trace (player w)) Play = None \<Longrightarrow>
   play E w = (Inr (), w\<lparr>was_playing := True, manually_paused := False,
     player := (player w)\<lparr>p_playing := True,
       p_rate := (if speed w \<noteq> 1 \<and>
                     engine_fault E (trace (player w) @ [Play]) (SetRate (speed w)) = None
                  then speed w else p_rate (player w)),
       trace := trace (player w) @ Play # rate_calls (speed w)\<rparr>\<rparr>)"
  by (auto simp: play_def try_except_def block_Cons block_Nil then_act_eq engine_eq modify_def
      ret_def print_def rate_calls_def split: option.splits)

lemma pause_eq:
  "pause E w =
    (case engine_fault E (trace (player w)) Pause of
       None \<Rightarrow> (Inr (), w\<lparr>was_playing := False, manually_paused := True,
          player := (player w)\<lparr>p_playing := False, trace := trace (player w) @ [Pause]\<rparr>\<rparr>)
     | Some msg \<Rightarrow> (Inr (), w\<lparr>player := (player w)\<lparr>trace := trace (player w) @ [Pause]\<rparr>,
          stdout := stdout w @ [''Error pausing video: '' @ msg]\<rparr>))"
  by (simp add: pause_def try_except_def block_Cons block_Nil then_act_eq engine_eq modify_def
      ret_def print_def split: option.splits)

lemma stop_eq:
  "stop E w =
    (case engine_fault E (trace (player w)) Stop of
       None \<Rightarrow> (Inr (), w\<lparr>current_video_path := [], was_playing := False,
          manually_paused := False,
          player := (player w)\<lparr>p_playing := False, trace := trace (player w) @ [Stop]\<rparr>\<rparr>)
     | Some msg \<Rightarrow> (Inr (), w\<lparr>player := (player w)\<lparr>trace := trace (player w) @ [Stop]\<rparr>,
          stdout := stdout w @ [''Error stopping video: '' @ msg]\<rparr>))"
  by (simp add: stop_def try_except_def block_Cons block_Nil then_act_eq engine_eq modify_def
      ret_def print_def split: option.splits)

lemma set_speed_eq:
  "set_speed E r w =
    (case engine_fault E (trace (player w)) (SetRate r) of
       None \<Rightarrow> (Inr (), w\<lparr>speed := r,
          player := (player w)\<lparr>p_rate := r, trace := trace (player w) @ [SetRate r]\<rparr>\<rparr>)
     | Some msg \<Rightarrow> (Inr (), w\<lparr>speed := r,
          player := (player w)\<lparr>trace := trace (player w) @ [SetRate r]\<rparr>,
          stdout := stdout w @ [''Error setting playback speed: '' @ msg]\<rparr>))"
  by (simp add: set_speed_def try_except_def then_act_eq engine_eq modify_def
      ret_def print_def split: option.splits)

lemma toggle_aspect_eq:
  "toggle_aspect E w =
    (Inr (if aspect_mode w = ''fit'' then ''keep_aspect'' else ''fit''),
     snd (apply_aspect_mode E
       (w\<lparr>aspect_mode := (if aspect_mode w = ''fit'' then ''keep_aspect'' else ''fit'')\<rparr>)))"
  by (simp add: toggle_aspect_def then_act_eq modify_def ret_def apply_aspect_mode_eq)

lemma play_issues:
  "media w \<noteq> None \<Longrightarrow> Play \<in> set (issued w (snd (play E w)))"
  by (cases "engine_fault E (trace (player w)) Play")
     (simp_all add: play_started play_failed issued_def)

lemma is_playing_eq:
  "fst (is_playing E w) =
     Inr (engine_fault E (trace (player w)) IsPlaying = None \<and> p_playing (player w))"
  by (simp add: is_playing_def try_except_def then_act_eq engine_eq ret_def split: option.splits)

text \<open>Unfolding everything evaluates a method on a sample state.\<close>

lemmas run_defs = load_def play_def pause_def stop_def set_speed_def toggle_aspect_def
  is_playing_def apply_aspect_mode_def block_def then_act_def bind_act_def try_except_def
  ret_def raise_def modify_def engine_def invoke_def print_def media_options_def
  calm_env_def broken_env_def new_wallpaper_def new_player_def sea_video_def

lemma load_calm:
  "load calm_env sea_video (new_wallpaper ''fit'' 1) = (Inr (), loaded_surface)"
  by (simp add: loaded_surface_def run_defs)

section \<open>Loading a video\<close>

text \<open>
  Claim C1. When \<^verbatim>\<open>Path(path).exists()\<close> is false, \<^verbatim>\<open>load(path)\<close> raises
  \<^verbatim>\<open>FileNotFoundError(path)\<close> and the surface, with its player, is exactly the state
  it was before the call: current path, rate, aspect mode and bound media included.
\<close>

theorem load_missing_path:
  "\<not> path_exists E path \<Longrightarrow> load E path w = (Inl (FileNotFoundError path), w)"
  by (simp add: load_def raise_def)

theorem load_missing_path_witness:
  "\<not> path_exists calm_env ''C:/v/gone.mp4'' \<and>
   load calm_env ''C:/v/gone.mp4'' loaded_surface =
     (Inl (FileNotFoundError ''C:/v/gone.mp4''), loaded_surface)"
  using load_missing_path [of calm_env "''C:/v/gone.mp4''" loaded_surface]
  by (simp add: calm_env_def)

text \<open>
  Claim C2. When the path exists and \<^verbatim>\<open>load(path)\<close> returns, the current path is
  \<open>path\<close>, the surface is \<open>Loaded\<close> with the new media object bound to the surface and
  to the player, and \<^verbatim>\<open>load\<close> has not issued the engine's play call: the engine's
  playing status is what it was, so a surface that was not playing still reports
  \<^verbatim>\<open>is_playing() == False\<close>.
\<close>

theorem load_existing_path:
  assumes "path_exists E path" and "load E path w = (Inr (), w')"
  shows "current_video_path w' = path \<and>
         surface_state w' = Loaded \<and>
         media w' = Some \<lparr>mrl = path, options = media_options\<rparr> \<and>
         p_media (player w') = media w' \<and>
         Play \<notin> set (issued w w') \<and>
         p_playing (player w') = p_playing (player w) \<and>
         (\<not> p_playing (player w) \<longrightarrow> fst (is_playing E w') = Inr False)"
  using load_Inr [OF assms(2)]
  by (simp add: surface_state_def issued_def is_playing_eq binding_calls_def rate_calls_def
      aspect_calls_def image_iff)

theorem load_existing_path_witness:
  "path_exists calm_env sea_video \<and>
   load calm_env sea_video (new_wallpaper ''fit'' 1) = (Inr (), loaded_surface) \<and>
   current_video_path loaded_surface = sea_video \<and>
   surface_state loaded_surface = Loaded \<and>
   Play \<notin> set (issued (new_wallpaper ''fit'' 1) loaded_surface) \<and>
   fst (is_playing calm_env loaded_surface) = Inr False"
proof -
  have ex: "path_exists calm_env sea_video"
    by (simp add: calm_env_def sea_video_def)
  have idle: "\<not> p_playing (player (new_wallpaper ''fit'' 1))"
    by (simp add: new_wallpaper_def new_player_def)
  from load_existing_path [OF ex load_calm] idle ex load_calm show ?thesis
    by simp
qed

lemma loaded_surface_eq:
  "loaded_surface =
     \<lparr>player = \<lparr>p_media = Some \<lparr>mrl = sea_video, options = media_options\<rparr>, p_rate = 1,
        p_scale = 1, p_aspect_ratio = None, p_playing = False,
        trace = binding_calls sea_video @ [VideoSetScale 1, VideoSetAspectRatio None]\<rparr>,
      media = Some \<lparr>mrl = sea_video, options = media_options\<rparr>, aspect_mode = ''fit'',
      speed = 1, current_video_path = sea_video, was_playing = False,
      manually_paused = False, stdout = []\<rparr>"
  by (simp add: loaded_surface_def binding_calls_def run_defs)

lemma stopped_surface_eq:
  "stopped_surface =
     loaded_surface\<lparr>current_video_path := [],
       player := (player loaded_surface)\<lparr>trace := trace (player loaded_surface) @ [Stop]\<rparr>\<rparr>"
  by (simp add: stopped_surface_def stop_eq loaded_surface_eq calm_env_def)

section \<open>Rate and aspect mode\<close>

text \<open>
  Claim C3, as the program has it. A \<^verbatim>\<open>load\<close> that returns has issued, after the calls
  that bind the media, \<^verbatim>\<open>set_rate(rate)\<close> when the rate is not 1.0 and then the calls of
  the current aspect mode. A \<^verbatim>\<open>play\<close> with media bound, whose play call returns, issues
  \<^verbatim>\<open>set_rate(rate)\<close> right after it when the rate is not 1.0. At the rate 1.0 neither
  of them issues a \<^verbatim>\<open>set_rate\<close> call.
\<close>

theorem rate_and_aspect_on_load_and_play:
  "(load E path w = (Inr (), w') \<longrightarrow>
      issued w w' =
        binding_calls path @ rate_calls (speed w) @
        aspect_calls E (trace (player w) @ binding_calls path @ rate_calls (speed w))
          (aspect_mode w)) \<and>
   (media w \<noteq> None \<and> engine_fault E (trace (player w)) Play = None \<longrightarrow>
      issued w (snd (play E w)) = Play # rate_calls (speed w)) \<and>
   (speed w \<noteq> 1 \<longrightarrow> rate_calls (speed w) = [SetRate (speed w)]) \<and>
   (speed w = 1 \<longrightarrow> rate_calls (speed w) = [])"
  by (auto simp: issued_def load_Inr(7) play_started rate_calls_def)

theorem rate_and_aspect_on_load_and_play_witness:
  "load calm_env sea_video (new_wallpaper ''keep_aspect'' 2) =
     (Inr (), snd (load calm_env sea_video (new_wallpaper ''keep_aspect'' 2))) \<and>
   issued (new_wallpaper ''keep_aspect'' 2)
     (snd (load calm_env sea_video (new_wallpaper ''keep_aspect'' 2))) =
     binding_calls sea_video @
     [SetRate 2, VideoSetScale 0, VideoSetAspectRatio (Some ''16:9'')] \<and>
   issued (snd (load calm_env sea_video (new_wallpaper ''keep_aspect'' 2)))
     (snd (play calm_env (snd (load calm_env sea_video (new_wallpaper ''keep_aspect'' 2))))) =
     [Play, SetRate 2]"
proof -
  let ?w = "new_wallpaper ''keep_aspect'' 2"
  let ?w' = "snd (load calm_env sea_video ?w)"
  have run: "load calm_env sea_video ?w = (Inr (), ?w')"
    by (simp add: run_defs)
  have bound: "media ?w' \<noteq> None"
    by (simp add: run_defs)
  have ok: "engine_fault calm_env (trace (player ?w')) Play = None"
    by (simp add: calm_env_def)
  have rate: "speed ?w = 2" "speed ?w' = 2"
    by (simp_all add: run_defs)
  from rate_and_aspect_on_load_and_play [of calm_env sea_video ?w ?w']
    rate_and_aspect_on_load_and_play [of calm_env sea_video ?w' ?w']
    run bound ok rate
  show ?thesis
    by (simp add: aspect_calls_def aspect_settings_def new_wallpaper_def new_player_def
        calm_env_def)
qed

text \<open>
  At the rate 1.0, \<^verbatim>\<open>load\<close> and \<^verbatim>\<open>play\<close> pass no rate to the engine: the claim that
  every \<^verbatim>\<open>play\<close> re-asserts the rate, whatever the rate, fails there.
\<close>

theorem play_at_unit_rate_counterexample:
  "speed loaded_surface = 1 \<and> media loaded_surface \<noteq> None \<and>
   issued (new_wallpaper ''fit'' 1) loaded_surface =
     binding_calls sea_video @ [VideoSetScale 1, VideoSetAspectRatio None] \<and>
   issued loaded_surface (snd (play calm_env loaded_surface)) = [Play]"
  by (simp add: loaded_surface_eq issued_def play_started calm_env_def rate_calls_def
      new_wallpaper_def new_player_def)

section \<open>Stopping\<close>

text \<open>
  Claim C4, as the program has it. \<^verbatim>\<open>stop\<close> never raises. When the engine's stop call
  returns, the current path is cleared, both playing flags are reset and the engine stops
  playing. The media stays bound in every case: the surface is in the state it was in,
  and on a \<open>Loaded\<close> surface a \<^verbatim>\<open>play\<close> after the \<^verbatim>\<open>stop\<close> issues the engine's
  play call. On an \<open>Empty\<close> surface \<^verbatim>\<open>play\<close> changes nothing and issues no engine
  call.
\<close>

theorem stop_keeps_media_bound:
  "fst (stop E w) = Inr () \<and>
   (engine_fault E (trace (player w)) Stop = None \<longrightarrow>
      current_video_path (snd (stop E w)) = [] \<and>
      \<not> was_playing (snd (stop E w)) \<and>
      \<not> manually_paused (snd (stop E w)) \<and>
      \<not> p_playing (player (snd (stop E w))) \<and>
      issued w (snd (stop E w)) = [Stop]) \<and>
   media (snd (stop E w)) = media w \<and>
   surface_state (snd (stop E w)) = surface_state w \<and>
   (surface_state w = Loaded \<longrightarrow>
      Play \<in> set (issued (snd (stop E w)) (snd (play E (snd (stop E w)))))) \<and>
   (surface_state w = Empty \<longrightarrow> play E w = (Inr (), w))"
proof -
  have kept: "media (snd (stop E w)) = media w"
    by (simp add: stop_eq split: option.splits)
  have again: "surface_state w = Loaded \<longrightarrow>
      Play \<in> set (issued (snd (stop E w)) (snd (play E (snd (stop E w)))))"
    using play_issues [of "snd (stop E w)" E] kept
    by (simp add: surface_state_def split: if_splits)
  have stopped: "fst (stop E w) = Inr () \<and>
   (engine_fault E (trace (player w)) Stop = None \<longrightarrow>
      current_video_path (snd (stop E w)) = [] \<and>
      \<not> was_playing (snd (stop E w)) \<and>
      \<not> manually_paused (snd (stop E w)) \<and>
      \<not> p_playing (player (snd (stop E w))) \<and>
      issued w (snd (stop E w)) = [Stop])"
    by (simp add: stop_eq issued_def split: option.splits)
  have empty: "surface_state w = Empty \<longrightarrow> play E w = (Inr (), w)"
    by (simp add: surface_state_def play_empty split: if_splits)
  from kept have same: "surface_state (snd (stop E w)) = surface_state w"
    by (simp add: surface_state_def)
  from stopped kept same again empty show ?thesis
    by blast
qed

theorem stop_keeps_media_bound_witness:
  "engine_fault calm_env (trace (player loaded_surface)) Stop = None \<and>
   current_video_path stopped_surface = [] \<and>
   media stopped_surface = media loaded_surface \<and>
   surface_state loaded_surface = Loaded \<and>
   Play \<in> set (issued stopped_surface (snd (play calm_env stopped_surface))) \<and>
   surface_state (new_wallpaper ''fit'' 1) = Empty \<and>
   play calm_env (new_wallpaper ''fit'' 1) = (Inr (), new_wallpaper ''fit'' 1)"
proof -
  have ok: "engine_fault calm_env (trace (player loaded_surface)) Stop = None"
    by (simp add: calm_env_def)
  have loaded: "surface_state loaded_surface = Loaded"
    by (simp add: surface_state_def loaded_surface_eq)
  have empty: "surface_state (new_wallpaper ''fit'' 1) = Empty"
    by (simp add: surface_state_def new_wallpaper_def)
  from stop_keeps_media_bound [of calm_env loaded_surface]
    stop_keeps_media_bound [of calm_env "new_wallpaper ''fit'' 1"] ok loaded empty
  show ?thesis
    by (simp add: stopped_surface_def)
qed

text \<open>
  After \<^verbatim>\<open>load\<close> and \<^verbatim>\<open>stop\<close> the media is still bound, and \<^verbatim>\<open>play\<close> makes the
  engine play again.
\<close>

theorem play_after_stop_counterexample:
  "media stopped_surface \<noteq> None \<and>
   surface_state stopped_surface = Loaded \<and>
   issued stopped_surface (snd (play calm_env stopped_surface)) = [Play] \<and>
   p_playing (player (snd (play calm_env stopped_surface)))"
  by (simp add: stopped_surface_eq loaded_surface_eq issued_def play_started calm_env_def
      rate_calls_def surface_state_def)

section \<open>Failing engine calls\<close>

text \<open>
  Claim C5, as the program has it. \<^verbatim>\<open>play\<close>, \<^verbatim>\<open>pause\<close>, \<^verbatim>\<open>stop\<close>, \<^verbatim>\<open>set_speed\<close> and
  \<^verbatim>\<open>toggle_aspect\<close> never raise. When the engine call of \<^verbatim>\<open>play\<close>, \<^verbatim>\<open>pause\<close> or
  \<^verbatim>\<open>stop\<close> raises, the surface keeps every field: only the call is in the engine's
  trace and a line is printed. \<^verbatim>\<open>set_speed\<close> and \<^verbatim>\<open>toggle_aspect\<close> store the new rate
  and the new mode before they call the engine and keep them when the call raises.
  \<^verbatim>\<open>load\<close> lets an exception of the call that creates the media object propagate,
  and returns whenever the calls that create and bind the media return, whatever its
  rate and aspect calls do.
\<close>

theorem engine_failures_caught:
  "fst (play E w) = Inr () \<and>
   fst (pause E w) = Inr () \<and>
   fst (stop E w) = Inr () \<and>
   fst (set_speed E r w) = Inr () \<and>
   fst (toggle_aspect E w) = Inr (aspect_mode (snd (toggle_aspect E w))) \<and>
   (media w \<noteq> None \<and> engine_fault E (trace (player w)) Play = Some msg \<longrightarrow>
      snd (play E w) =
        w\<lparr>player := (player w)\<lparr>trace := trace (player w) @ [Play]\<rparr>,
          stdout := stdout w @ [''Error playing video: '' @ msg]\<rparr>) \<and>
   (engine_fault E (trace (player w)) Pause = Some msg \<longrightarrow>
      snd (pause E w) =
        w\<lparr>player := (player w)\<lparr>trace := trace (player w) @ [Pause]\<rparr>,
          stdout := stdout w @ [''Error pausing video: '' @ msg]\<rparr>) \<and>
   (engine_fault E (trace (player w)) Stop = Some msg \<longrightarrow>
      snd (stop E w) =
        w\<lparr>player := (player w)\<lparr>trace := trace (player w) @ [Stop]\<rparr>,
          stdout := stdout w @ [''Error stopping video: '' @ msg]\<rparr>) \<and>
   (engine_fault E (trace (player w)) (SetRate r) = Some msg \<longrightarrow>
      snd (set_speed E r w) =
        w\<lparr>speed := r,
          player := (player w)\<lparr>trace := trace (player w) @ [SetRate r]\<rparr>,
          stdout := stdout w @ [''Error setting playback speed: '' @ msg]\<rparr>) \<and>
   aspect_mode (snd (toggle_aspect E w)) =
     (if aspect_mode w = ''fit'' then ''keep_aspect'' else ''fit'') \<and>
   (path_exists E path \<and> engine_fault E (trace (player w)) (MediaNew path) = Some msg \<longrightarrow>
      fst (load E path w) = Inl (EngineError msg)) \<and>
   (path_exists E path \<and> (\<forall>c\<in>set (binding_calls path). \<forall>t. engine_fault E t c = None) \<longrightarrow>
      fst (load E path w) = Inr ())"
proof -
  have "path_exists E path \<and>
      (\<forall>c\<in>set (binding_calls path). \<forall>t. engine_fault E t c = None) \<longrightarrow>
      fst (load E path w) = Inr ()"
    using load_returns [of E path w] by blast
  moreover
  have "fst (pause E w) = Inr ()" "fst (stop E w) = Inr ()" "fst (set_speed E r w) = Inr ()"
    by (simp_all add: pause_eq stop_eq set_speed_eq split: option.splits)
  moreover have "fst (toggle_aspect E w) = Inr (aspect_mode (snd (toggle_aspect E w)))"
    and "aspect_mode (snd (toggle_aspect E w)) =
           (if aspect_mode w = ''fit'' then ''keep_aspect'' else ''fit'')"
    by (simp_all add: toggle_aspect_eq apply_aspect_mode_eq)
  moreover have "path_exists E path \<and>
      engine_fault E (trace (player w)) (MediaNew path) = Some msg \<longrightarrow>
      fst (load E path w) = Inl (EngineError msg)"
    by (simp add: load_def block_Cons then_act_eq modify_def engine_eq)
  ultimately show ?thesis
    by (simp add: play_fst play_failed pause_eq stop_eq set_speed_eq)
qed

theorem engine_failures_caught_witness:
  "media loaded_surface \<noteq> None \<and>
   engine_fault broken_env (trace (player loaded_surface)) Play = Some ''vlc'' \<and>
   snd (play broken_env loaded_surface) =
     loaded_surface\<lparr>player := (player loaded_surface)\<lparr>trace :=
         trace (player loaded_surface) @ [Play]\<rparr>,
       stdout := [''Error playing video: vlc'']\<rparr> \<and>
   snd (pause broken_env loaded_surface) =
     loaded_surface\<lparr>player := (player loaded_surface)\<lparr>trace :=
         trace (player loaded_surface) @ [Pause]\<rparr>,
       stdout := [''Error pausing video: vlc'']\<rparr> \<and>
   snd (stop broken_env loaded_surface) =
     loaded_surface\<lparr>player := (player loaded_surface)\<lparr>trace :=
         trace (player loaded_surface) @ [Stop]\<rparr>,
       stdout := [''Error stopping video: vlc'']\<rparr> \<and>
   speed (snd (set_speed broken_env 2 loaded_surface)) = 2 \<and>
   path_exists broken_env sea_video \<and>
   fst (load broken_env sea_video loaded_surface) = Inl (EngineError ''vlc'') \<and>
   path_exists picky_env sea_video \<and>
   engine_fault picky_env [] (SetRate 2) = Some ''vlc'' \<and>
   fst (load picky_env sea_video (new_wallpaper ''fit'' 2)) = Inr ()"
proof -
  have picky: "path_exists picky_env sea_video"
    "engine_fault picky_env [] (SetRate 2) = Some ''vlc''"
    "\<forall>c\<in>set (binding_calls sea_video). \<forall>t. engine_fault picky_env t c = None"
    by (simp_all add: picky_env_def sea_video_def binding_calls_def media_options_def)
  note returns = engine_failures_caught [of picky_env "new_wallpaper ''fit'' 2" 2 "''vlc''"
      sea_video]
  have bound: "media loaded_surface \<noteq> None" and out: "stdout loaded_surface = []"
    by (simp_all add: loaded_surface_eq)
  have fault: "engine_fault broken_env (trace (player loaded_surface)) c = Some ''vlc''" for c
    by (simp add: broken_env_def)
  have ex: "path_exists broken_env sea_video"
    by (simp add: broken_env_def sea_video_def)
  from engine_failures_caught [of broken_env loaded_surface 2 "''vlc''" sea_video]
    bound fault out ex returns picky
  show ?thesis
    by simp
qed

text \<open>
  With an engine whose every call raises, \<^verbatim>\<open>set_speed(2.0)\<close> changes the rate from 1.0
  to 2.0, and \<^verbatim>\<open>load\<close> of an existing file raises.
\<close>

theorem failed_set_speed_counterexample:
  "engine_fault broken_env (trace (player (new_wallpaper ''fit'' 1))) (SetRate 2) = Some ''vlc'' \<and>
   speed (new_wallpaper ''fit'' 1) = 1 \<and>
   speed (snd (set_speed broken_env 2 (new_wallpaper ''fit'' 1))) = 2 \<and>
   path_exists broken_env sea_video \<and>
   fst (load broken_env sea_video (new_wallpaper ''fit'' 1)) = Inl (EngineError ''vlc'')"
  by (simp add: run_defs)

section \<open>Toggling the aspect mode\<close>

text \<open>
  Claim C7. On a surface whose mode is \<^verbatim>\<open>"fit"\<close> or \<^verbatim>\<open>"keep_aspect"\<close>, each
  \<^verbatim>\<open>toggle_aspect\<close> returns the mode it has just set, the first call sets the other mode
  and the second call sets the original one again. The second call issues the engine
  calls of the original mode, and when they return the player has the original scale and
  aspect ratio. Media, rate and current path are untouched.
\<close>

theorem toggle_aspect_twice:
  assumes "aspect_mode w = ''fit'' \<or> aspect_mode w = ''keep_aspect''"
    and "toggle_aspect E w = (r1, w1)"
    and "toggle_aspect E w1 = (r2, w2)"
  shows "r1 = Inr (aspect_mode w1) \<and> aspect_mode w1 \<noteq> aspect_mode w \<and>
         r2 = Inr (aspect_mode w2) \<and> aspect_mode w2 = aspect_mode w \<and>
         issued w1 w2 = aspect_calls E (trace (player w1)) (aspect_mode w) \<and>
         (engine_fault E (trace (player w1))
            (VideoSetScale (fst (aspect_settings (aspect_mode w)))) = None \<and>
          engine_fault E
            (trace (player w1) @ [VideoSetScale (fst (aspect_settings (aspect_mode w)))])
            (VideoSetAspectRatio (snd (aspect_settings (aspect_mode w)))) = None \<longrightarrow>
            p_scale (player w2) = fst (aspect_settings (aspect_mode w)) \<and>
            p_aspect_ratio (player w2) = snd (aspect_settings (aspect_mode w))) \<and>
         media w2 = media w \<and> speed w2 = speed w \<and>
         current_video_path w2 = current_video_path w"
proof -
  from assms(2) have w1: "w1 = snd (toggle_aspect E w)" and r1: "r1 = fst (toggle_aspect E w)"
    by simp_all
  from assms(3) have w2: "w2 = snd (toggle_aspect E w1)" and r2: "r2 = fst (toggle_aspect E w1)"
    by simp_all
  have m1: "aspect_mode w1 = (if aspect_mode w = ''fit'' then ''keep_aspect'' else ''fit'')"
    by (simp add: w1 toggle_aspect_eq apply_aspect_mode_eq)
  have rest1: "media w1 = media w" "speed w1 = speed w"
    "current_video_path w1 = current_video_path w"
    by (simp_all add: w1 toggle_aspect_eq apply_aspect_mode_eq)
  from assms(1) m1 have flip: "(if aspect_mode w1 = ''fit'' then ''keep_aspect'' else ''fit'') =
      aspect_mode w" and differ: "aspect_mode w1 \<noteq> aspect_mode w"
    by auto
  show ?thesis
    unfolding w2 r2 toggle_aspect_eq [of E w1] flip
    using differ rest1 m1 r1
    by (simp add: toggle_aspect_eq apply_aspect_mode_eq issued_def)
qed

theorem toggle_aspect_twice_witness:
  "aspect_mode (new_wallpaper ''fit'' 1) = ''fit'' \<and>
   fst (toggle_aspect calm_env (new_wallpaper ''fit'' 1)) = Inr ''keep_aspect'' \<and>
   fst (toggle_aspect calm_env (snd (toggle_aspect calm_env (new_wallpaper ''fit'' 1)))) =
     Inr ''fit'' \<and>
   aspect_mode (snd (toggle_aspect calm_env (snd (toggle_aspect calm_env
     (new_wallpaper ''fit'' 1))))) = ''fit'' \<and>
   p_scale (player (snd (toggle_aspect calm_env (snd (toggle_aspect calm_env
     (new_wallpaper ''fit'' 1)))))) = 1 \<and>
   p_aspect_ratio (player (snd (toggle_aspect calm_env (snd (toggle_aspect calm_env
     (new_wallpaper ''fit'' 1)))))) = None"
proof -
  let ?w = "new_wallpaper ''fit'' 1"
  let ?w1 = "snd (toggle_aspect calm_env ?w)"
  let ?w2 = "snd (toggle_aspect calm_env ?w1)"
  have mode: "aspect_mode ?w = ''fit'' \<or> aspect_mode ?w = ''keep_aspect''"
    and fit: "aspect_mode ?w = ''fit''"
    by (simp_all add: new_wallpaper_def)
  have ok: "engine_fault calm_env t c = None" for t c
    by (simp add: calm_env_def)
  have first: "aspect_mode ?w1 = ''keep_aspect''"
    by (simp add: toggle_aspect_eq apply_aspect_mode_eq fit)
  from toggle_aspect_twice [OF mode, of calm_env "fst (toggle_aspect calm_env ?w)" ?w1
      "fst (toggle_aspect calm_env ?w1)" ?w2] fit ok first
  show ?thesis
    by (simp add: aspect_settings_def)
qed

section \<open>Loading the settings\<close>

lemma map_of_dict_set: "map_of (dict_set k v d) = (map_of d)(k \<mapsto> v)"
  by (simp add: dict_set_def update_conv')

lemma dict_get_dict_set: "dict_get (dict_set k v d) k dflt = v"
  by (simp add: dict_get_def map_of_dict_set)

lemma map_of_dict_merge: "map_of (dict_merge a b) = map_of a ++ map_of (rev b)"
  unfolding dict_merge_def
proof (induction b arbitrary: a)
  case Nil
  show ?case by simp
next
  case (Cons kv b)
  obtain k v where kv: "kv = (k, v)" by (cases kv)
  have "map_of (fold (\<lambda>(k, v). AList.update k v) b (AList.update k v a)) =
        map_of (AList.update k v a) ++ map_of (rev b)"
    by (rule Cons.IH)
  also have "\<dots> = map_of a ++ (map_of [(k, v)] ++ map_of (rev b))"
    by (simp add: update_conv' fun_eq_iff map_add_def split: option.splits)
  finally show ?case
    by (simp add: kv)
qed

lemma distinct_dict_merge:
  "distinct (map fst a) \<Longrightarrow> distinct (map fst (dict_merge a b))"
  unfolding dict_merge_def
  by (induction b arbitrary: a) (auto simp: distinct_update)

lemma map_of_rev_distinct:
  "distinct (map fst kvs) \<Longrightarrow> map_of (rev kvs) = map_of kvs"
  by (rule map_of_inject_set [THEN iffD2]) (simp_all add: rev_map [symmetric])

lemma map_of_dict_of_object: "map_of (dict_of_object kvs) = map_of (rev kvs)"
  by (simp add: dict_of_object_def map_of_dict_merge)

lemma map_of_load_config:
  "map_of (load_config (Parsed (JObject kvs))) = map_of DEFAULT_CONFIG ++ map_of (rev kvs)"
proof -
  have "distinct (map fst (dict_of_object kvs))"
    by (simp add: dict_of_object_def distinct_dict_merge)
  then have "map_of (rev (dict_of_object kvs)) = map_of (rev kvs)"
    by (simp add: map_of_rev_distinct map_of_dict_of_object)
  then show ?thesis
    by (simp add: map_of_dict_merge)
qed

text \<open>
  Claim C8. \<^verbatim>\<open>load_config\<close> always returns a dict. It is the default record when the
  file is missing, when reading or parsing it raises, and when it parses to something
  that is not an object. When the file holds an object, every key of the file has the
  file's value (the last one, should the file repeat the key) and every other key has
  the default value: a file without \<^verbatim>\<open>default_video\<close> gives \<^verbatim>\<open>default_video == ""\<close>.
\<close>

theorem load_config_total_merge:
  "load_config Missing = DEFAULT_CONFIG \<and>
   load_config Unreadable = DEFAULT_CONFIG \<and>
   ((\<forall>kvs. j \<noteq> JObject kvs) \<longrightarrow> load_config (Parsed j) = DEFAULT_CONFIG) \<and>
   map_of (load_config (Parsed (JObject kvs))) k =
     (case map_of (rev kvs) k of
        None \<Rightarrow> map_of DEFAULT_CONFIG k
      | Some v \<Rightarrow> Some v) \<and>
   (distinct (map fst kvs) \<and> (k, v) \<in> set kvs \<longrightarrow>
      dict_get (load_config (Parsed (JObject kvs))) k dflt = v) \<and>
   (''default_video'' \<notin> fst ` set kvs \<longrightarrow>
      dict_get (load_config (Parsed (JObject kvs))) ''default_video'' dflt = JStr [])"
proof -
  have other: "(\<forall>kvs. j \<noteq> JObject kvs) \<longrightarrow> load_config (Parsed j) = DEFAULT_CONFIG"
    by (cases j) simp_all
  have merged: "map_of (load_config (Parsed (JObject kvs))) k =
     (case map_of (rev kvs) k of None \<Rightarrow> map_of DEFAULT_CONFIG k | Some v \<Rightarrow> Some v)"
    unfolding map_of_load_config by (simp add: map_add_def)
  have present: "dict_get (load_config (Parsed (JObject kvs))) k dflt = v"
    if "distinct (map fst kvs)" and "(k, v) \<in> set kvs"
  proof -
    from that have "map_of (rev kvs) k = Some v"
      by (simp add: map_of_rev_distinct)
    then show ?thesis
      unfolding dict_get_def merged by simp
  qed
  have absent: "dict_get (load_config (Parsed (JObject kvs))) ''default_video'' dflt = JStr []"
    if "''default_video'' \<notin> fst ` set kvs"
  proof -
    from that have "map_of (rev kvs) ''default_video'' = None"
      by (simp add: map_of_eq_None_iff)
    then show ?thesis
      unfolding dict_get_def map_of_load_config
      by (simp add: map_add_def DEFAULT_CONFIG_def)
  qed
  from other merged present absent show ?thesis
    by simp
qed

theorem load_config_total_merge_witness:
  "distinct (map fst [(''last_video'', JStr ''C:/v/old.mp4''), (''speed'', JNum 2)]) \<and>
   ''default_video'' \<notin> fst ` set [(''last_video'', JStr ''C:/v/old.mp4''), (''speed'', JNum 2)] \<and>
   load_config (Parsed (JObject [(''last_video'', JStr ''C:/v/old.mp4''), (''speed'', JNum 2)])) =
     [(''last_video'', JStr ''C:/v/old.mp4''), (''default_video'', JStr []),
      (''speed'', JNum 2), (''aspect_mode'', JStr ''fit'')] \<and>
   dict_get (load_config (Parsed (JObject
     [(''last_video'', JStr ''C:/v/old.mp4''), (''speed'', JNum 2)]))) ''speed'' JNull = JNum 2 \<and>
   dict_get (load_config (Parsed (JObject
     [(''last_video'', JStr ''C:/v/old.mp4''), (''speed'', JNum 2)]))) ''default_video'' JNull =
     JStr [] \<and>
   load_config (Parsed (JArray [])) = DEFAULT_CONFIG"
proof -
  let ?kvs = "[(''last_video'', JStr ''C:/v/old.mp4''), (''speed'', JNum 2)]"
  have d: "distinct (map fst ?kvs)" and m: "(''speed'', JNum 2) \<in> set ?kvs"
    and a: "''default_video'' \<notin> fst ` set ?kvs" and o: "\<forall>kvs. JArray [] \<noteq> JObject kvs"
    by simp_all
  have run: "load_config (Parsed (JObject ?kvs)) =
     [(''last_video'', JStr ''C:/v/old.mp4''), (''default_video'', JStr []),
      (''speed'', JNum 2), (''aspect_mode'', JStr ''fit'')]"
    by (simp add: dict_merge_def dict_of_object_def DEFAULT_CONFIG_def)
  from load_config_total_merge [of "JArray []" ?kvs "''speed''" "JNum 2" JNull] d m a o run
  show ?thesis
    by simp
qed

section \<open>The control panel\<close>

lemma on_wallpaper_eq:
  "on_wallpaper m p = (fst (m (wallpaper p)), p\<lparr>wallpaper := snd (m (wallpaper p))\<rparr>)"
  by (simp add: on_wallpaper_def split: prod.splits)

lemma auto_load_eq:
  "auto_load E a b v p =
    (case load E v (wallpaper p) of
       (Inr u, w1) \<Rightarrow>
         (Inr (), p\<lparr>wallpaper := snd (play E w1), btn_playpause_enabled := True,
            btn_playpause_text := ''Pause'', btn_setdefault_enabled := True,
            status := a @ path_name E v\<rparr>)
     | (Inl e, w1) \<Rightarrow> (Inr (), p\<lparr>wallpaper := w1\<lparr>stdout := stdout w1 @ [b @ str_error e]\<rparr>\<rparr>))"
  by (simp add: auto_load_def try_except_def block_Cons block_Nil then_act_eq on_wallpaper_eq
      modify_def ret_def print_def play_fst split: prod.splits sum.splits)

lemma on_load_eq:
  "path \<noteq> [] \<Longrightarrow> on_load E path p =
    (case load E path (wallpaper p) of
       (Inr u, w1) \<Rightarrow>
         (Inr (), p\<lparr>config := dict_set ''last_video'' (JStr path) (config p),
            store := save_config (write_result E)
              (dict_set ''last_video'' (JStr path) (config p)) (store p),
            wallpaper := snd (play E w1), btn_playpause_enabled := True,
            btn_setdefault_enabled := True, btn_playpause_text := ''Pause'',
            status := ''Playing: '' @ path_name E path\<rparr>)
     | (Inl e, w1) \<Rightarrow>
         (Inr (), p\<lparr>config := dict_set ''last_video'' (JStr path) (config p),
            store := save_config (write_result E)
              (dict_set ''last_video'' (JStr path) (config p)) (store p),
            wallpaper := w1,
            dialogs := dialogs p @ [''Failed to load video:'' @ [CHR 0x0A] @ str_error e]\<rparr>))"
  by (simp add: on_load_def try_except_def block_Cons block_Nil then_act_eq on_wallpaper_eq
      modify_def ret_def play_fst split: prod.splits sum.splits)

lemma on_speed_change_eq:
  "on_speed_change E i p =
    (Inr (), p\<lparr>wallpaper := snd (set_speed E (speed_of_index i) (wallpaper p)),
       config := dict_set ''speed'' (JNum (speed_of_index i)) (config p),
       store := save_config (write_result E)
         (dict_set ''speed'' (JNum (speed_of_index i)) (config p)) (store p),
       status := ''Speed: '' @ str_rate (speed_of_index i) @ ''x''\<rparr>)"
  by (simp add: on_speed_change_def Let_def block_Cons block_Nil then_act_eq on_wallpaper_eq
      modify_def ret_def set_speed_eq split: option.splits)

text \<open>
  Claim C9, as the program has it, for a configuration whose two paths are strings.
  When the default video is set and exists, the panel loads it and, when \<^verbatim>\<open>load\<close>
  returns, enables its buttons, shows the file's name in the status label and plays it.
  Otherwise, when the last video is set and exists, it does the same with that one.
  Otherwise nothing changes: no engine call is issued and the surface stays as it was.
  An exception of \<^verbatim>\<open>load\<close> is caught and printed; the status label and the buttons
  stay as they were. The construction of the panel never raises.
\<close>

theorem startup_policy:
  assumes "dict_get (config p) ''default_video'' (JStr []) = JStr d"
    and "dict_get (config p) ''last_video'' (JStr []) = JStr l"
  shows "fst (startup E p) = Inr () \<and>
    (d \<noteq> [] \<and> path_exists E d \<and> load E d (wallpaper p) = (Inr (), w1) \<longrightarrow>
       snd (startup E p) =
         p\<lparr>wallpaper := snd (play E w1), btn_playpause_enabled := True,
           btn_playpause_text := ''Pause'', btn_setdefault_enabled := True,
           status := ''Loaded default: '' @ path_name E d\<rparr>) \<and>
    (d \<noteq> [] \<and> path_exists E d \<and> load E d (wallpaper p) = (Inl e, w1) \<longrightarrow>
       snd (startup E p) =
         p\<lparr>wallpaper := w1\<lparr>stdout :=
           stdout w1 @ [''Error loading default video: '' @ str_error e]\<rparr>\<rparr>) \<and>
    (\<not> (d \<noteq> [] \<and> path_exists E d) \<and> l \<noteq> [] \<and> path_exists E l \<and>
     load E l (wallpaper p) = (Inr (), w1) \<longrightarrow>
       snd (startup E p) =
         p\<lparr>wallpaper := snd (play E w1), btn_playpause_enabled := True,
           btn_playpause_text := ''Pause'', btn_setdefault_enabled := True,
           status := ''Loaded: '' @ path_name E l\<rparr>) \<and>
    (\<not> (d \<noteq> [] \<and> path_exists E d) \<and> l \<noteq> [] \<and> path_exists E l \<and>
     load E l (wallpaper p) = (Inl e, w1) \<longrightarrow>
       snd (startup E p) =
         p\<lparr>wallpaper := w1\<lparr>stdout :=
           stdout w1 @ [''Error loading last video: '' @ str_error e]\<rparr>\<rparr>) \<and>
    (\<not> (d \<noteq> [] \<and> path_exists E d) \<and> \<not> (l \<noteq> [] \<and> path_exists E l) \<longrightarrow>
       startup E p = (Inr (), p))"
proof (cases "d \<noteq> [] \<and> path_exists E d")
  case True
  then have "startup E p =
      auto_load E ''Loaded default: '' ''Error loading default video: '' d p"
    by (simp add: startup_def assms)
  with True show ?thesis
    by (simp add: auto_load_eq split: prod.splits sum.splits)
next
  case False
  note no_default = this
  show ?thesis
  proof (cases "l \<noteq> [] \<and> path_exists E l")
    case True
    with no_default have "startup E p =
        auto_load E ''Loaded: '' ''Error loading last video: '' l p"
      by (auto simp: startup_def assms)
    with True no_default show ?thesis
      by (auto simp: auto_load_eq split: prod.splits sum.splits)
  next
    case False
    with no_default have "startup E p = (Inr (), p)"
      by (auto simp: startup_def assms ret_def)
    with False no_default show ?thesis
      by auto
  qed
qed

theorem startup_policy_witness:
  "dict_get (config fresh_panel) ''default_video'' (JStr []) = JStr [] \<and>
   dict_get (config fresh_panel) ''last_video'' (JStr []) = JStr [] \<and>
   startup calm_env fresh_panel = (Inr (), fresh_panel) \<and>
   surface_state (wallpaper (snd (startup calm_env fresh_panel))) = Empty \<and>
   dict_get (config default_panel) ''default_video'' (JStr []) = JStr sea_video \<and>
   path_exists calm_env sea_video \<and>
   load calm_env sea_video (wallpaper default_panel) = (Inr (), loaded_surface) \<and>
   fst (startup calm_env default_panel) = Inr () \<and>
   snd (startup calm_env default_panel) =
     default_panel\<lparr>wallpaper := snd (play calm_env loaded_surface),
       btn_playpause_enabled := True, btn_playpause_text := ''Pause'',
       btn_setdefault_enabled := True, status := ''Loaded default: sea.mp4''\<rparr> \<and>
   p_playing (player (wallpaper (snd (startup calm_env default_panel))))"
proof -
  have f: "dict_get (config fresh_panel) ''default_video'' (JStr []) = JStr []"
    "dict_get (config fresh_panel) ''last_video'' (JStr []) = JStr []"
    by (simp_all add: fresh_panel_def new_panel_def dict_get_def DEFAULT_CONFIG_def)
  have d: "dict_get (config default_panel) ''default_video'' (JStr []) = JStr sea_video"
    "dict_get (config default_panel) ''last_video'' (JStr []) = JStr []"
    by (simp_all add: default_panel_def new_panel_def dict_get_def dict_set_def
        DEFAULT_CONFIG_def)
  have ex: "path_exists calm_env sea_video" "sea_video \<noteq> []"
    "path_name calm_env sea_video = ''sea.mp4''"
    by (simp_all add: calm_env_def sea_video_def)
  have run: "load calm_env sea_video (wallpaper default_panel) = (Inr (), loaded_surface)"
    by (simp add: default_panel_def new_panel_def load_calm)
  have empty: "surface_state (wallpaper fresh_panel) = Empty"
    by (simp add: fresh_panel_def new_panel_def new_wallpaper_def surface_state_def)
  have playing: "p_playing (player (snd (play calm_env loaded_surface)))"
    by (simp add: play_started loaded_surface_eq calm_env_def)
  from startup_policy [OF f, of calm_env] startup_policy [OF d, of calm_env loaded_surface]
    f d ex run empty playing
  show ?thesis
    by simp
qed

text \<open>
  When the engine raises while the default video is loaded, the message goes to the
  console and the status label still reads \<^verbatim>\<open>Idle\<close>.
\<close>

theorem startup_failure_counterexample:
  "path_exists broken_env sea_video \<and>
   fst (load broken_env sea_video (wallpaper default_panel)) = Inl (EngineError ''vlc'') \<and>
   fst (startup broken_env default_panel) = Inr () \<and>
   status (snd (startup broken_env default_panel)) = ''Idle'' \<and>
   stdout (wallpaper (snd (startup broken_env default_panel))) =
     [''Error loading default video: vlc'']"
proof -
  have run: "load broken_env sea_video (wallpaper default_panel) =
      (Inl (EngineError ''vlc''),
       (new_wallpaper ''fit'' 1)\<lparr>current_video_path := sea_video,
          player := new_player\<lparr>trace := [MediaNew sea_video]\<rparr>\<rparr>)"
    by (simp add: default_panel_def new_panel_def run_defs)
  have cfg: "set_and_exists broken_env (dict_get (config default_panel) ''default_video'' (JStr []))
      = Inr True"
    "text_of (dict_get (config default_panel) ''default_video'' (JStr [])) = sea_video"
    by (simp_all add: default_panel_def new_panel_def dict_get_def dict_set_def
        DEFAULT_CONFIG_def broken_env_def sea_video_def)
  have rest: "path_exists broken_env sea_video" "status default_panel = ''Idle''"
    "stdout (new_wallpaper ''fit'' 1) = []"
    by (simp_all add: default_panel_def new_panel_def new_wallpaper_def broken_env_def
        sea_video_def)
  show ?thesis
    by (simp add: startup_def cfg auto_load_eq run rest)
qed

text \<open>
  Claim C10, as the program has it. \<^verbatim>\<open>on_load\<close> never raises. With a path chosen in the
  dialog, it stores the path as \<^verbatim>\<open>last_video\<close> and saves the configuration before it
  calls \<^verbatim>\<open>load\<close>, so the path is recorded whether \<^verbatim>\<open>load\<close> returns or raises; a
  failed load shows an error box and leaves the surface as \<^verbatim>\<open>load\<close> left it. A
  cancelled dialog changes nothing.
\<close>

theorem on_load_records_choice:
  "fst (on_load E path p) = Inr () \<and>
   (path = [] \<longrightarrow> on_load E path p = (Inr (), p)) \<and>
   (path \<noteq> [] \<longrightarrow>
      config (snd (on_load E path p)) = dict_set ''last_video'' (JStr path) (config p) \<and>
      dict_get (config (snd (on_load E path p))) ''last_video'' dflt = JStr path \<and>
      store (snd (on_load E path p)) =
        save_config (write_result E) (config (snd (on_load E path p))) (store p)) \<and>
   (path \<noteq> [] \<and> write_result E = WriteOk \<longrightarrow>
      store (snd (on_load E path p)) = Parsed (JObject (config (snd (on_load E path p))))) \<and>
   (path \<noteq> [] \<and> load E path (wallpaper p) = (Inl e, w1) \<longrightarrow>
      wallpaper (snd (on_load E path p)) = w1 \<and>
      status (snd (on_load E path p)) = status p \<and>
      dialogs (snd (on_load E path p)) =
        dialogs p @ [''Failed to load video:'' @ [CHR 0x0A] @ str_error e])"
proof (cases "path = []")
  case True
  then show ?thesis
    by (simp add: on_load_def ret_def)
next
  case False
  then show ?thesis
    by (simp add: on_load_eq dict_get_dict_set save_config_def
        split: prod.splits sum.splits write_outcome.splits)
qed

theorem on_load_records_choice_witness:
  "''C:/v/gone.mp4'' \<noteq> [] \<and> write_result calm_env = WriteOk \<and>
   load calm_env ''C:/v/gone.mp4'' (wallpaper fresh_panel) =
     (Inl (FileNotFoundError ''C:/v/gone.mp4''), wallpaper fresh_panel) \<and>
   dict_get (config (snd (on_load calm_env ''C:/v/gone.mp4'' fresh_panel))) ''last_video'' JNull =
     JStr ''C:/v/gone.mp4'' \<and>
   store (snd (on_load calm_env ''C:/v/gone.mp4'' fresh_panel)) =
     Parsed (JObject (config (snd (on_load calm_env ''C:/v/gone.mp4'' fresh_panel)))) \<and>
   wallpaper (snd (on_load calm_env ''C:/v/gone.mp4'' fresh_panel)) = wallpaper fresh_panel \<and>
   dialogs (snd (on_load calm_env ''C:/v/gone.mp4'' fresh_panel)) =
     [''Failed to load video:'' @ [CHR 0x0A] @ ''C:/v/gone.mp4''] \<and>
   on_load calm_env [] fresh_panel = (Inr (), fresh_panel)"
proof -
  have ne: "''C:/v/gone.mp4'' \<noteq> []" and wr: "write_result calm_env = WriteOk"
    by (simp_all add: calm_env_def)
  have run: "load calm_env ''C:/v/gone.mp4'' (wallpaper fresh_panel) =
     (Inl (FileNotFoundError ''C:/v/gone.mp4''), wallpaper fresh_panel)"
    by (simp add: load_def raise_def calm_env_def)
  have none: "dialogs fresh_panel = []"
    by (simp add: fresh_panel_def new_panel_def)
  from on_load_records_choice [of calm_env "''C:/v/gone.mp4''" fresh_panel JNull
      "FileNotFoundError ''C:/v/gone.mp4''" "wallpaper fresh_panel"]
    on_load_records_choice [of calm_env "[]" fresh_panel]
    ne wr run none
  show ?thesis
    by (simp add: dict_get_dict_set save_config_def)
qed

text \<open>
  Choosing a file that does not exist: \<^verbatim>\<open>load\<close> raises, and the path is nevertheless the
  \<^verbatim>\<open>last_video\<close> of the configuration and of the settings file.
\<close>

theorem failed_load_persisted_counterexample:
  "fst (load calm_env ''C:/v/gone.mp4'' (wallpaper fresh_panel)) =
     Inl (FileNotFoundError ''C:/v/gone.mp4'') \<and>
   dict_get (config fresh_panel) ''last_video'' JNull = JStr [] \<and>
   dict_get (config (snd (on_load calm_env ''C:/v/gone.mp4'' fresh_panel))) ''last_video'' JNull =
     JStr ''C:/v/gone.mp4'' \<and>
   store (snd (on_load calm_env ''C:/v/gone.mp4'' fresh_panel)) =
     Parsed (JObject
       [(''last_video'', JStr ''C:/v/gone.mp4''), (''default_video'', JStr []),
        (''speed'', JNum 1), (''aspect_mode'', JStr ''fit'')])"
proof -
  have run: "load calm_env ''C:/v/gone.mp4'' (wallpaper fresh_panel) =
     (Inl (FileNotFoundError ''C:/v/gone.mp4''), wallpaper fresh_panel)"
    by (simp add: load_def raise_def calm_env_def)
  have cfg: "config fresh_panel = DEFAULT_CONFIG"
    by (simp add: fresh_panel_def new_panel_def)
  show ?thesis
    by (simp add: on_load_eq run cfg dict_get_dict_set)
       (simp add: dict_get_def dict_set_def DEFAULT_CONFIG_def save_config_def calm_env_def)
qed

text \<open>
  Claim C6, as the program has it. \<^verbatim>\<open>set_speed(r)\<close> stores any rate it is given. The
  panel's \<^verbatim>\<open>on_speed_change\<close> passes only one of 0.5, 1.0, 1.5 and 2.0 (1.0 for an
  unknown index), so after it the rate of the surface and the \<^verbatim>\<open>speed\<close> of the
  configuration, and of the settings file when the write succeeds, are among these four.
\<close>

theorem speed_change_known_rate:
  "speed (snd (set_speed E r w)) = r \<and>
   speed_of_index i \<in> known_rates \<and>
   speed (wallpaper (snd (on_speed_change E i p))) = speed_of_index i \<and>
   dict_get (config (snd (on_speed_change E i p))) ''speed'' dflt = JNum (speed_of_index i) \<and>
   (write_result E = WriteOk \<longrightarrow>
      store (snd (on_speed_change E i p)) =
        Parsed (JObject (config (snd (on_speed_change E i p)))))"
  by (simp add: on_speed_change_eq set_speed_eq dict_get_dict_set save_config_def
      speed_of_index_def known_rates_def split: option.splits)

theorem speed_change_known_rate_witness:
  "write_result calm_env = WriteOk \<and>
   speed (wallpaper (snd (on_speed_change calm_env 3 fresh_panel))) = 2 \<and>
   dict_get (config (snd (on_speed_change calm_env 3 fresh_panel))) ''speed'' JNull = JNum 2 \<and>
   store (snd (on_speed_change calm_env 3 fresh_panel)) =
     Parsed (JObject (config (snd (on_speed_change calm_env 3 fresh_panel)))) \<and>
   speed (wallpaper (snd (on_speed_change calm_env 7 fresh_panel))) = 1"
proof -
  have wr: "write_result calm_env = WriteOk"
    by (simp add: calm_env_def)
  from speed_change_known_rate [of calm_env 2 loaded_surface 3 fresh_panel JNull]
    speed_change_known_rate [of calm_env 2 loaded_surface 7 fresh_panel JNull] wr
  show ?thesis
    by (simp add: speed_of_index_def)
qed

text \<open>\<^verbatim>\<open>set_speed(3.0)\<close> is accepted and handed to the engine.\<close>

theorem set_speed_unvalidated_counterexample:
  "fst (set_speed calm_env 3 (new_wallpaper ''fit'' 1)) = Inr () \<and>
   speed (snd (set_speed calm_env 3 (new_wallpaper ''fit'' 1))) = 3 \<and>
   p_rate (player (snd (set_speed calm_env 3 (new_wallpaper ''fit'' 1)))) = 3 \<and>
   (3::real) \<notin> known_rates"
  by (simp add: set_speed_eq calm_env_def known_rates_def)

end
